theory Spec2Isabelle
  imports Main "HOL-Library.Multiset" "HOL-Library.Signed_Division" "HOL-Library.Word"
begin

section \<open>Calls that may park the caller or fail\<close>

text \<open>
  Every primitive of weft is a thin wrapper around a primitive of the Go runtime
  (\<^verbatim>\<open>sync.Mutex\<close>, a native \<^verbatim>\<open>chan\<close>, \<^verbatim>\<open>go\<close>, \<^verbatim>\<open>sync.WaitGroup\<close>,
  \<^verbatim>\<open>time.Sleep\<close>, \<^verbatim>\<open>time.After\<close>). A call made by a goroutine ends in one of four
  ways: it returns a result and leaves the object in a new state; it parks the calling
  goroutine (the state carried is the one left behind while the caller is parked); it
  panics with a message; or the runtime aborts the process with a fatal error that no
  \<^verbatim>\<open>recover\<close> can intercept.
\<close>

datatype ('r, 's) outcome = Returns 'r 's | Blocks 's | Panics string | Fatal string

fun map_state :: "('s \<Rightarrow> 't) \<Rightarrow> ('r, 's) outcome \<Rightarrow> ('r, 't) outcome" where
  "map_state f (Returns r x) = Returns r (f x)"
| "map_state f (Blocks x) = Blocks (f x)"
| "map_state f (Panics s) = Panics s"
| "map_state f (Fatal s) = Fatal s"

fun is_Panics :: "('r, 's) outcome \<Rightarrow> bool" where
  "is_Panics (Panics s) = True"
| "is_Panics (Returns r x) = False"
| "is_Panics (Blocks x) = False"
| "is_Panics (Fatal s) = False"

section \<open>Mutex\<close>

subsection \<open>The runtime's \<^verbatim>\<open>sync.Mutex\<close>\<close>

text \<open>
  \<^verbatim>\<open>internal/scheduler/mutex.go\<close> stores a \<^verbatim>\<open>sync.Mutex\<close> and forwards to it. The
  standard library documents it as follows: \<^verbatim>\<open>Lock\<close> blocks the caller while the
  mutex is in use; \<^verbatim>\<open>Unlock\<close> on a mutex that is not locked is a fatal run-time error
  (\<^verbatim>\<open>fatal error: sync: unlock of unlocked mutex\<close>); a locked mutex is not associated
  with a particular goroutine, so any goroutine may unlock it; \<^verbatim>\<open>TryLock\<close> never
  blocks. The only state that these calls can observe is whether the mutex is locked.
\<close>

record sync_Mutex =
  locked :: bool

definition sync_Lock :: "sync_Mutex \<Rightarrow> (unit, sync_Mutex) outcome" where
  "sync_Lock m = (if locked m then Blocks m else Returns () (m\<lparr>locked := True\<rparr>))"

definition sync_Unlock :: "sync_Mutex \<Rightarrow> (unit, sync_Mutex) outcome" where
  "sync_Unlock m =
     (if locked m then Returns () (m\<lparr>locked := False\<rparr>)
      else Fatal ''sync: unlock of unlocked mutex'')"

definition sync_TryLock :: "sync_Mutex \<Rightarrow> (bool, sync_Mutex) outcome" where
  "sync_TryLock m =
     (if locked m then Returns False m else Returns True (m\<lparr>locked := True\<rparr>))"

subsection \<open>\<^verbatim>\<open>scheduler.Mutex\<close> (internal/scheduler/mutex.go)\<close>

text \<open>
  \<^verbatim>\<open>type Mutex struct { mu sync.Mutex }\<close>; each method is one forwarding call.
\<close>

record sched_Mutex =
  mu :: sync_Mutex

definition NewMutex :: sched_Mutex where
  "NewMutex = \<lparr>mu = \<lparr>locked = False\<rparr>\<rparr>"

definition sched_Lock :: "sched_Mutex \<Rightarrow> (unit, sched_Mutex) outcome" where
  "sched_Lock m = map_state (\<lambda>s. m\<lparr>mu := s\<rparr>) (sync_Lock (mu m))"

definition sched_Unlock :: "sched_Mutex \<Rightarrow> (unit, sched_Mutex) outcome" where
  "sched_Unlock m = map_state (\<lambda>s. m\<lparr>mu := s\<rparr>) (sync_Unlock (mu m))"

definition sched_TryLock :: "sched_Mutex \<Rightarrow> (bool, sched_Mutex) outcome" where
  "sched_TryLock m = map_state (\<lambda>s. m\<lparr>mu := s\<rparr>) (sync_TryLock (mu m))"

subsection \<open>\<^verbatim>\<open>weft.Mutex\<close> (mutex.go, build tag detsched)\<close>

text \<open>
  \<^verbatim>\<open>type Mutex struct { mu *scheduler.Mutex }\<close>. The pointer is \<open>None\<close> while it is
  nil; the zero value of the struct is \<open>zero_Mutex\<close>. \<^verbatim>\<open>Lock\<close> and \<^verbatim>\<open>TryLock\<close>
  allocate the scheduler mutex when the pointer is nil and then forward; \<^verbatim>\<open>Unlock\<close>
  panics when the pointer is nil and forwards otherwise.
\<close>

record Mutex =
  mu_ptr :: "sched_Mutex option"

definition zero_Mutex :: Mutex where
  "zero_Mutex = \<lparr>mu_ptr = None\<rparr>"

definition Mutex_Lock :: "Mutex \<Rightarrow> (unit, Mutex) outcome" where
  "Mutex_Lock m =
     (let sm = (case mu_ptr m of None \<Rightarrow> NewMutex | Some sm \<Rightarrow> sm)
      in map_state (\<lambda>sm'. m\<lparr>mu_ptr := Some sm'\<rparr>) (sched_Lock sm))"

definition Mutex_Unlock :: "Mutex \<Rightarrow> (unit, Mutex) outcome" where
  "Mutex_Unlock m =
     (case mu_ptr m of
        None \<Rightarrow> Panics ''unlock of unlocked mutex''
      | Some sm \<Rightarrow> map_state (\<lambda>sm'. m\<lparr>mu_ptr := Some sm'\<rparr>) (sched_Unlock sm))"

definition Mutex_TryLock :: "Mutex \<Rightarrow> (bool, Mutex) outcome" where
  "Mutex_TryLock m =
     (let sm = (case mu_ptr m of None \<Rightarrow> NewMutex | Some sm \<Rightarrow> sm)
      in map_state (\<lambda>sm'. m\<lparr>mu_ptr := Some sm'\<rparr>) (sched_TryLock sm))"

text \<open>Whether the mutex is held: allocated and locked.\<close>

definition Mutex_locked :: "Mutex \<Rightarrow> bool" where
  "Mutex_locked m = (case mu_ptr m of None \<Rightarrow> False | Some sm \<Rightarrow> locked (mu sm))"

text \<open>The two states an allocated mutex can be in.\<close>

definition locked_Mutex :: Mutex where
  "locked_Mutex = \<lparr>mu_ptr = Some \<lparr>mu = \<lparr>locked = True\<rparr>\<rparr>\<rparr>"

definition unlocked_Mutex :: Mutex where
  "unlocked_Mutex = \<lparr>mu_ptr = Some \<lparr>mu = \<lparr>locked = False\<rparr>\<rparr>\<rparr>"

subsection \<open>Who holds the mutex\<close>

text \<open>
  Neither struct has an owner field and no method takes the calling task. To speak of
  "the owner" at all, a call is paired with the task that makes it, and the task whose
  \<^verbatim>\<open>Lock\<close> succeeded last is remembered beside the mutex. This \<open>holder\<close> is
  bookkeeping of the model only: no definition of the code above reads it.
\<close>

record held_Mutex =
  the_mutex :: Mutex
  holder :: "nat option"

definition Lock_by :: "nat \<Rightarrow> held_Mutex \<Rightarrow> (unit, held_Mutex) outcome" where
  "Lock_by t h =
     (case Mutex_Lock (the_mutex h) of
        Returns r m' \<Rightarrow> Returns r \<lparr>the_mutex = m', holder = Some t\<rparr>
      | Blocks m' \<Rightarrow> Blocks (h\<lparr>the_mutex := m'\<rparr>)
      | Panics s \<Rightarrow> Panics s
      | Fatal s \<Rightarrow> Fatal s)"

definition Unlock_by :: "nat \<Rightarrow> held_Mutex \<Rightarrow> (unit, held_Mutex) outcome" where
  "Unlock_by t h =
     (case Mutex_Unlock (the_mutex h) of
        Returns r m' \<Rightarrow> Returns r \<lparr>the_mutex = m', holder = None\<rparr>
      | Blocks m' \<Rightarrow> Blocks (h\<lparr>the_mutex := m'\<rparr>)
      | Panics s \<Rightarrow> Panics s
      | Fatal s \<Rightarrow> Fatal s)"

definition fresh_held :: held_Mutex where
  "fresh_held = \<lparr>the_mutex = zero_Mutex, holder = None\<rparr>"

text \<open>The mutex after task \<open>t\<close> has locked a never-used \<^verbatim>\<open>weft.Mutex\<close>.\<close>

definition locked_by :: "nat \<Rightarrow> held_Mutex" where
  "locked_by t = \<lparr>the_mutex = locked_Mutex, holder = Some t\<rparr>"

section \<open>Channel\<close>

subsection \<open>The runtime's native channel\<close>

text \<open>
  \<^verbatim>\<open>internal/scheduler/channel.go\<close> stores a native \<^verbatim>\<open>chan T\<close> and forwards to it:
  \<^verbatim>\<open>c.ch <- v\<close>, \<^verbatim>\<open>v, ok := <-c.ch\<close>, the two \<^verbatim>\<open>select\<close> statements with a
  \<^verbatim>\<open>default\<close> branch, and \<^verbatim>\<open>close(c.ch)\<close>. The native channel is the runtime's
  \<^verbatim>\<open>hchan\<close>: a capacity, the buffered values in arrival order, the closed flag, and
  the two queues of parked goroutines (each parked sender with the value it is
  sending). The operations below follow \<^verbatim>\<open>chansend\<close>, \<^verbatim>\<open>chanrecv\<close> and
  \<^verbatim>\<open>closechan\<close> of the runtime, case by case and in their order; \<open>block\<close> is false
  for the \<^verbatim>\<open>select\<close> forms. The calling goroutine is \<open>g\<close>, and \<open>z\<close> is the zero
  value of the element type.

  An operation may complete the parked operation of another goroutine; it reports
  that as a list of wake-ups.
\<close>

record 'a hchan =
  dataqsiz :: nat
  buf :: "'a list"
  closed :: bool
  recvq :: "nat list"
  sendq :: "(nat \<times> 'a) list"

datatype 'a wake =
    Recv_returns nat 'a bool  \<comment> \<open>the parked \<^verbatim>\<open>Recv\<close> of this goroutine returns \<open>(v, ok)\<close>\<close>
  | Send_returns nat  \<comment> \<open>the parked \<^verbatim>\<open>Send\<close> of this goroutine returns\<close>
  | Send_panics nat 'a  \<comment> \<open>the parked \<^verbatim>\<open>Send\<close> of this value panics: the channel was closed\<close>

definition makechan :: "int \<Rightarrow> (unit, 'a hchan) outcome" where
  "makechan n =
     (if n < 0 then Panics ''makechan: size out of range''
      else Returns () \<lparr>dataqsiz = nat n, buf = [], closed = False, recvq = [], sendq = []\<rparr>)"

definition chansend ::
    "bool \<Rightarrow> nat \<Rightarrow> 'a \<Rightarrow> 'a hchan \<Rightarrow> (bool \<times> 'a wake list, 'a hchan) outcome" where
  "chansend block g v c =
     (if closed c then Panics ''send on closed channel''
      else case recvq c of
        r # rs \<Rightarrow> Returns (True, [Recv_returns r v True]) (c\<lparr>recvq := rs\<rparr>)
      | [] \<Rightarrow>
          if length (buf c) < dataqsiz c then Returns (True, []) (c\<lparr>buf := buf c @ [v]\<rparr>)
          else if block then Blocks (c\<lparr>sendq := sendq c @ [(g, v)]\<rparr>)
          else Returns (False, []) c)"

definition chanrecv ::
    "bool \<Rightarrow> nat \<Rightarrow> 'a \<Rightarrow> 'a hchan \<Rightarrow> (('a \<times> bool) \<times> 'a wake list, 'a hchan) outcome" where
  "chanrecv block g z c =
     (if closed c then
        (case buf c of
           [] \<Rightarrow> Returns ((z, False), []) c
         | b # bs \<Rightarrow> Returns ((b, True), []) (c\<lparr>buf := bs\<rparr>))
      else case sendq c of
        (s, sv) # ss \<Rightarrow>
          (case buf c of
             [] \<Rightarrow> Returns ((sv, True), [Send_returns s]) (c\<lparr>sendq := ss\<rparr>)
           | b # bs \<Rightarrow>
               Returns ((b, True), [Send_returns s]) (c\<lparr>buf := bs @ [sv], sendq := ss\<rparr>))
      | [] \<Rightarrow>
          (case buf c of
             b # bs \<Rightarrow> Returns ((b, True), []) (c\<lparr>buf := bs\<rparr>)
           | [] \<Rightarrow>
               if block then Blocks (c\<lparr>recvq := recvq c @ [g]\<rparr>)
               else Returns ((z, False), []) c))"

definition closechan :: "'a \<Rightarrow> 'a hchan \<Rightarrow> ('a wake list, 'a hchan) outcome" where
  "closechan z c =
     (if closed c then Panics ''close of closed channel''
      else Returns
        (map (\<lambda>r. Recv_returns r z False) (recvq c) @ map (\<lambda>(s, v). Send_panics s v) (sendq c))
        (c\<lparr>closed := True, recvq := [], sendq := []\<rparr>))"

subsection \<open>\<^verbatim>\<open>scheduler.Chan\<close> (internal/scheduler/channel.go)\<close>

text \<open>\<^verbatim>\<open>type Chan[T any] struct { ch chan T }\<close>, built by \<^verbatim>\<open>MakeChan\<close> only.\<close>

record 'a sched_Chan =
  ch :: "'a hchan"

fun map_result :: "('r \<Rightarrow> 'q) \<Rightarrow> ('r, 's) outcome \<Rightarrow> ('q, 's) outcome" where
  "map_result f (Returns r x) = Returns (f r) x"
| "map_result f (Blocks x) = Blocks x"
| "map_result f (Panics s) = Panics s"
| "map_result f (Fatal s) = Fatal s"

definition sched_MakeChan :: "int \<Rightarrow> (unit, 'a sched_Chan) outcome" where
  "sched_MakeChan cap = map_state (\<lambda>h. \<lparr>ch = h\<rparr>) (makechan cap)"

definition sched_Send :: "nat \<Rightarrow> 'a \<Rightarrow> 'a sched_Chan \<Rightarrow> ('a wake list, 'a sched_Chan) outcome" where
  "sched_Send g v c = map_result snd (map_state (\<lambda>h. c\<lparr>ch := h\<rparr>) (chansend True g v (ch c)))"

definition sched_Recv ::
    "nat \<Rightarrow> 'a \<Rightarrow> 'a sched_Chan \<Rightarrow> (('a \<times> bool) \<times> 'a wake list, 'a sched_Chan) outcome" where
  "sched_Recv g z c = map_state (\<lambda>h. c\<lparr>ch := h\<rparr>) (chanrecv True g z (ch c))"

definition sched_TrySend ::
    "nat \<Rightarrow> 'a \<Rightarrow> 'a sched_Chan \<Rightarrow> (bool \<times> 'a wake list, 'a sched_Chan) outcome" where
  "sched_TrySend g v c = map_state (\<lambda>h. c\<lparr>ch := h\<rparr>) (chansend False g v (ch c))"

definition sched_TryRecv ::
    "nat \<Rightarrow> 'a \<Rightarrow> 'a sched_Chan \<Rightarrow> (('a \<times> bool) \<times> 'a wake list, 'a sched_Chan) outcome" where
  "sched_TryRecv g z c = map_state (\<lambda>h. c\<lparr>ch := h\<rparr>) (chanrecv False g z (ch c))"

definition sched_Close :: "'a \<Rightarrow> 'a sched_Chan \<Rightarrow> ('a wake list, 'a sched_Chan) outcome" where
  "sched_Close z c = map_state (\<lambda>h. c\<lparr>ch := h\<rparr>) (closechan z (ch c))"

subsection \<open>\<^verbatim>\<open>weft.Chan\<close> (channel.go, build tag detsched)\<close>

text \<open>
  \<^verbatim>\<open>type Chan[T any] struct { ch *scheduler.Chan[T] }\<close>; every method forwards through
  the pointer. On the zero value the pointer is nil and the forwarded method
  dereferences it, which is a run-time panic.
\<close>

record 'a Chan =
  ch_ptr :: "'a sched_Chan option"

definition nil_dereference :: string where
  "nil_dereference = ''runtime error: invalid memory address or nil pointer dereference''"

definition through_ptr ::
    "('a sched_Chan \<Rightarrow> ('r, 'a sched_Chan) outcome) \<Rightarrow> 'a Chan \<Rightarrow> ('r, 'a Chan) outcome" where
  "through_ptr f c =
     (case ch_ptr c of
        None \<Rightarrow> Panics nil_dereference
      | Some sc \<Rightarrow> map_state (\<lambda>sc'. c\<lparr>ch_ptr := Some sc'\<rparr>) (f sc))"

definition MakeChan :: "int \<Rightarrow> (unit, 'a Chan) outcome" where
  "MakeChan cap = map_state (\<lambda>sc. \<lparr>ch_ptr = Some sc\<rparr>) (sched_MakeChan cap)"

definition Chan_Send :: "nat \<Rightarrow> 'a \<Rightarrow> 'a Chan \<Rightarrow> ('a wake list, 'a Chan) outcome" where
  "Chan_Send g v = through_ptr (sched_Send g v)"

definition Chan_Recv ::
    "nat \<Rightarrow> 'a \<Rightarrow> 'a Chan \<Rightarrow> (('a \<times> bool) \<times> 'a wake list, 'a Chan) outcome" where
  "Chan_Recv g z = through_ptr (sched_Recv g z)"

definition Chan_TrySend :: "nat \<Rightarrow> 'a \<Rightarrow> 'a Chan \<Rightarrow> (bool \<times> 'a wake list, 'a Chan) outcome" where
  "Chan_TrySend g v = through_ptr (sched_TrySend g v)"

definition Chan_TryRecv ::
    "nat \<Rightarrow> 'a \<Rightarrow> 'a Chan \<Rightarrow> (('a \<times> bool) \<times> 'a wake list, 'a Chan) outcome" where
  "Chan_TryRecv g z = through_ptr (sched_TryRecv g z)"

definition Chan_Close :: "'a \<Rightarrow> 'a Chan \<Rightarrow> ('a wake list, 'a Chan) outcome" where
  "Chan_Close z = through_ptr (sched_Close z)"

text \<open>The native channel behind a \<^verbatim>\<open>weft.Chan\<close>, when there is one.\<close>

definition native :: "'a Chan \<Rightarrow> 'a hchan option" where
  "native c = map_option ch (ch_ptr c)"

definition chan_of :: "'a hchan \<Rightarrow> 'a Chan" where
  "chan_of h = \<lparr>ch_ptr = Some \<lparr>ch = h\<rparr>\<rparr>"

subsection \<open>Runs of calls on one channel\<close>

text \<open>
  The operations of a native channel exclude one another (the runtime holds the
  channel's lock for the whole of each), so whatever the goroutines of a run do to one
  channel happens in some order: a list of calls, each with the goroutine that makes
  it. The ledger beside the channel notes every value passed to \<^verbatim>\<open>Send\<close> (and to a
  \<^verbatim>\<open>TrySend\<close> that reported success), every value that a \<^verbatim>\<open>Recv\<close> or \<^verbatim>\<open>TryRecv\<close>
  returned with \<open>open = True\<close> (for a parked receiver: the value handed to it when it
  is woken), and every value whose \<^verbatim>\<open>Send\<close> ended in a panic. A panic kills the
  process, so the run ends there.
\<close>

datatype 'a chan_call = Send 'a | Recv | TrySend 'a | TryRecv | Close

record 'a ledger =
  sent :: "'a list"
  received :: "'a list"
  refused :: "'a list"
  died :: bool

definition empty_ledger :: "'a ledger" where
  "empty_ledger = \<lparr>sent = [], received = [], refused = [], died = False\<rparr>"

definition note_sent :: "'a \<Rightarrow> 'a ledger \<Rightarrow> 'a ledger" where
  "note_sent v l = l\<lparr>sent := sent l @ [v]\<rparr>"

definition note_received :: "'a \<times> bool \<Rightarrow> 'a ledger \<Rightarrow> 'a ledger" where
  "note_received r l = (if snd r then l\<lparr>received := received l @ [fst r]\<rparr> else l)"

definition note_refused :: "'a \<Rightarrow> 'a ledger \<Rightarrow> 'a ledger" where
  "note_refused v l = l\<lparr>refused := refused l @ [v], died := True\<rparr>"

fun note_wake :: "'a wake \<Rightarrow> 'a ledger \<Rightarrow> 'a ledger" where
  "note_wake (Recv_returns r v ok) l = note_received (v, ok) l"
| "note_wake (Send_returns s) l = l"
| "note_wake (Send_panics s v) l = note_refused v l"

definition note_wakes :: "'a wake list \<Rightarrow> 'a ledger \<Rightarrow> 'a ledger" where
  "note_wakes ws l = fold note_wake ws l"

fun chan_step :: "'a \<Rightarrow> nat \<times> 'a chan_call \<Rightarrow> 'a Chan \<times> 'a ledger \<Rightarrow> 'a Chan \<times> 'a ledger" where
  "chan_step z (g, Send v) (c, l) =
     (case Chan_Send g v c of
        Returns ws c' \<Rightarrow> (c', note_wakes ws (note_sent v l))
      | Blocks c' \<Rightarrow> (c', note_sent v l)
      | Panics m \<Rightarrow> (c, note_refused v (note_sent v l))
      | Fatal m \<Rightarrow> (c, note_refused v (note_sent v l)))"
| "chan_step z (g, TrySend v) (c, l) =
     (case Chan_TrySend g v c of
        Returns r c' \<Rightarrow> (c', note_wakes (snd r) (if fst r then note_sent v l else l))
      | Blocks c' \<Rightarrow> (c', l)
      | Panics m \<Rightarrow> (c, note_refused v (note_sent v l))
      | Fatal m \<Rightarrow> (c, note_refused v (note_sent v l)))"
| "chan_step z (g, Recv) (c, l) =
     (case Chan_Recv g z c of
        Returns r c' \<Rightarrow> (c', note_wakes (snd r) (note_received (fst r) l))
      | Blocks c' \<Rightarrow> (c', l)
      | Panics m \<Rightarrow> (c, l\<lparr>died := True\<rparr>)
      | Fatal m \<Rightarrow> (c, l\<lparr>died := True\<rparr>))"
| "chan_step z (g, TryRecv) (c, l) =
     (case Chan_TryRecv g z c of
        Returns r c' \<Rightarrow> (c', note_wakes (snd r) (note_received (fst r) l))
      | Blocks c' \<Rightarrow> (c', l)
      | Panics m \<Rightarrow> (c, l\<lparr>died := True\<rparr>)
      | Fatal m \<Rightarrow> (c, l\<lparr>died := True\<rparr>))"
| "chan_step z (g, Close) (c, l) =
     (case Chan_Close z c of
        Returns ws c' \<Rightarrow> (c', note_wakes ws l)
      | Blocks c' \<Rightarrow> (c', l)
      | Panics m \<Rightarrow> (c, l\<lparr>died := True\<rparr>)
      | Fatal m \<Rightarrow> (c, l\<lparr>died := True\<rparr>))"

fun chan_run ::
    "'a \<Rightarrow> (nat \<times> 'a chan_call) list \<Rightarrow> 'a Chan \<times> 'a ledger \<Rightarrow> 'a Chan \<times> 'a ledger" where
  "chan_run z [] st = st"
| "chan_run z (e # es) st = (if died (snd st) then st else chan_run z es (chan_step z e st))"

text \<open>What is in the channel: the buffered values, and the values of the parked senders.\<close>

definition buffered :: "'a Chan \<Rightarrow> 'a list" where
  "buffered c = (case native c of None \<Rightarrow> [] | Some h \<Rightarrow> buf h)"

definition parked_sends :: "'a Chan \<Rightarrow> 'a list" where
  "parked_sends c = (case native c of None \<Rightarrow> [] | Some h \<Rightarrow> map snd (sendq h))"

text \<open>A closed channel with nothing in it, as \<^verbatim>\<open>MakeChan(0)\<close> and \<^verbatim>\<open>Close\<close> leave it.\<close>

definition closed_empty :: "'a Chan" where
  "closed_empty = chan_of \<lparr>dataqsiz = 0, buf = [], closed = True, recvq = [], sendq = []\<rparr>"

text \<open>
  The accounting of a run: every value passed to \<^verbatim>\<open>Send\<close> is in exactly one place.
\<close>

definition accounted :: "'a Chan \<times> 'a ledger \<Rightarrow> bool" where
  "accounted st =
     (mset (sent (snd st)) =
        mset (received (snd st)) + mset (buffered (fst st)) + mset (parked_sends (fst st))
        + mset (refused (snd st)))"

definition unharmed :: "'a ledger \<Rightarrow> bool" where
  "unharmed l = (died l \<or> refused l = [])"

text \<open>
  Two runs on a channel of capacity 5. In the first (the scenario of
  \<^verbatim>\<open>examples/basic_test.go\<close>, \<^verbatim>\<open>TestChannel\<close>) goroutine 1 sends 1 to 5 and closes,
  goroutine 2 receives until the channel reports closed. In the second, three values
  are sent and one is received.
\<close>

definition fresh5 :: "int Chan" where
  "fresh5 = chan_of \<lparr>dataqsiz = 5, buf = [], closed = False, recvq = [], sendq = []\<rparr>"

definition producer_consumer :: "(nat \<times> int chan_call) list" where
  "producer_consumer =
     [(1, Send 1), (1, Send 2), (1, Send 3), (1, Send 4), (1, Send 5), (1, Close),
      (2, Recv), (2, Recv), (2, Recv), (2, Recv), (2, Recv), (2, Recv)]"

definition three_in_one_out :: "(nat \<times> int chan_call) list" where
  "three_in_one_out = [(1, Send 1), (1, Send 2), (1, Send 3), (2, Recv)]"

definition producer_consumer_end :: "int Chan \<times> int ledger" where
  "producer_consumer_end =
     (chan_of \<lparr>dataqsiz = 5, buf = [], closed = True, recvq = [], sendq = []\<rparr>,
      \<lparr>sent = [1, 2, 3, 4, 5], received = [1, 2, 3, 4, 5], refused = [], died = False\<rparr>)"

definition three_in_one_out_end :: "int Chan \<times> int ledger" where
  "three_in_one_out_end =
     (chan_of \<lparr>dataqsiz = 5, buf = [2, 3], closed = False, recvq = [], sendq = []\<rparr>,
      \<lparr>sent = [1, 2, 3], received = [1], refused = [], died = False\<rparr>)"

section \<open>Scheduler\<close>

subsection \<open>Tasks (internal/scheduler/task.go)\<close>

text \<open>
  A function handed to the scheduler is represented by what it does to the
  synchronisation objects it shares with the other functions: the calls it makes, in
  order, each on one of the program's \<^verbatim>\<open>weft.Mutex\<close> variables (numbered from 0).
\<close>

datatype call = Lock nat | Unlock nat | TryLock nat

datatype TaskState = TaskReady | TaskRunning | TaskBlocked | TaskDone

record Task =
  task_id :: int
  state :: TaskState
  blocked :: bool
  task_function :: "call list"

definition NewTask :: "int \<Rightarrow> call list \<Rightarrow> Task" where
  "NewTask n fn = \<lparr>task_id = n, state = TaskReady, blocked = False, task_function = fn\<rparr>"

subsection \<open>The scheduler struct\<close>

text \<open>
  \<^verbatim>\<open>type Scheduler struct { mu sync.Mutex; rng *rand.Rand; tasks []*Task;
  runnable []int; current int; waitGroup sync.WaitGroup }\<close>. The generator is
  \<^verbatim>\<open>rand.New(rand.NewSource(int64(seed)))\<close>: it is represented by the seed it was built
  from, since no method of the scheduler ever draws from it. A \<^verbatim>\<open>sync.WaitGroup\<close> is
  its counter: \<^verbatim>\<open>Add\<close> adds to it and panics if it becomes negative, \<^verbatim>\<open>Done\<close> is
  \<^verbatim>\<open>Add(-1)\<close>, and \<^verbatim>\<open>Wait\<close> blocks until the counter is zero.
\<close>

record Scheduler =
  smu :: sync_Mutex
  rng :: "64 word"
  tasks :: "Task list"
  runnable :: "int list"
  current :: int
  waitGroup :: int

definition New :: "64 word \<Rightarrow> Scheduler" where
  "New seed =
     \<lparr>smu = \<lparr>locked = False\<rparr>, rng = seed, tasks = [], runnable = [], current = 0,
      waitGroup = 0\<rparr>"

definition WaitGroup_Add :: "int \<Rightarrow> int \<Rightarrow> (unit, int) outcome" where
  "WaitGroup_Add delta n =
     (if n + delta < 0 then Panics ''sync: negative WaitGroup counter''
      else Returns () (n + delta))"

subsection \<open>Sleep and After: the wall clock\<close>

text \<open>
  \<^verbatim>\<open>Sleep(d)\<close> is \<^verbatim>\<open>time.Sleep(d / 1000)\<close> and \<^verbatim>\<open>After(d)\<close> is
  \<^verbatim>\<open>return time.After(d / 1000)\<close>. A \<^verbatim>\<open>time.Duration\<close> is a signed 64-bit count of
  nanoseconds and Go's \<^verbatim>\<open>/\<close> truncates towards zero (\<open>sdiv\<close>); the quotient by 1000
  cannot overflow. Package \<^verbatim>\<open>time\<close> works on the clock of the machine: \<open>wall\<close> is
  what that clock reads, in nanoseconds, at the moment of the call. \<^verbatim>\<open>time.Sleep\<close>
  returns at once for a duration that is zero or negative and otherwise parks the
  caller until the clock has advanced by the duration; \<^verbatim>\<open>time.After\<close> starts a
  runtime timer due when the clock has advanced by the duration.
\<close>

datatype sleep_result = Returns_at_once | Parked_until int

record Timer =
  due :: int

definition time_Sleep :: "int \<Rightarrow> int \<Rightarrow> sleep_result" where
  "time_Sleep wall x = (if x \<le> 0 then Returns_at_once else Parked_until (wall + x))"

definition time_After :: "int \<Rightarrow> int \<Rightarrow> Timer" where
  "time_After wall x = \<lparr>due = wall + x\<rparr>"

definition Sleep :: "Scheduler \<Rightarrow> int \<Rightarrow> int \<Rightarrow> Scheduler \<times> sleep_result" where
  "Sleep s wall d = (s, time_Sleep wall (d sdiv 1000))"

definition After :: "Scheduler \<Rightarrow> int \<Rightarrow> int \<Rightarrow> Scheduler \<times> Timer" where
  "After s wall d = (s, time_After wall (d sdiv 1000))"

text \<open>
  Two scenarios for the order of timers. In each, two tasks call \<^verbatim>\<open>After\<close> one after
  the other, at the clock readings \<open>w1\<close> and \<open>w2\<close>, with the durations \<open>d1\<close> and
  \<open>d2\<close>; \<open>timers_started\<close> is what the Go runtime is given: the two timers, in the
  order of their creation. The specification's logical clock does not advance between
  the two calls, so the logical deadlines are \<open>now + d1\<close> and \<open>now + d2\<close>, and the
  timer that has to fire first is the second one exactly when \<open>d2 < d1\<close>.
\<close>

definition timers_started :: "Scheduler \<Rightarrow> int \<times> int \<Rightarrow> int \<times> int \<Rightarrow> Timer list" where
  "timers_started s c1 c2 =
     [snd (After s (fst c1) (snd c1)), snd (After (fst (After s (fst c1) (snd c1))) (fst c2) (snd c2))]"

definition fires_first_by_deadline :: "int \<Rightarrow> int \<Rightarrow> nat" where
  "fires_first_by_deadline d1 d2 = (if d2 < d1 then 1 else 0)"

subsection \<open>Spawn and Wait: goroutines\<close>

text \<open>
  \<^verbatim>\<open>Spawn(fn)\<close> locks \<^verbatim>\<open>s.mu\<close>, adds 1 to the wait group, starts
  \<^verbatim>\<open>go func() { defer s.waitGroup.Done(); fn(nil) }()\<close> and unlocks \<^verbatim>\<open>s.mu\<close>;
  \<^verbatim>\<open>Wait()\<close> is \<^verbatim>\<open>s.waitGroup.Wait()\<close>. Neither touches \<^verbatim>\<open>rng\<close>, \<^verbatim>\<open>tasks\<close>,
  \<^verbatim>\<open>runnable\<close> or \<^verbatim>\<open>current\<close>. The goroutines belong to the Go runtime, so the state
  of a run is the scheduler struct together with what the runtime holds: the
  goroutines started so far, each with the calls its function has still to make
  (\<open>Live\<close>) or gone (\<open>Exited\<close>, after the deferred \<^verbatim>\<open>Done\<close>); the program's mutexes;
  and whether a panic or fatal error has killed the process. For the claims about
  records, \<open>log\<close> notes each call that returned: the number of the task (the order of
  the \<^verbatim>\<open>Spawn\<close> calls), and the call, which names the operation and the mutex.
\<close>

datatype goroutine = Live "call list" | Exited

record world =
  sched :: Scheduler
  goroutines :: "goroutine list"
  mutexes :: "Mutex list"
  log :: "(nat \<times> call) list"
  crashed :: "string option"

definition boot :: "64 word \<Rightarrow> nat \<Rightarrow> world" where
  "boot seed k =
     \<lparr>sched = New seed, goroutines = [], mutexes = replicate k zero_Mutex, log = [],
      crashed = None\<rparr>"

definition Spawn :: "call list \<Rightarrow> world \<Rightarrow> (unit, world) outcome" where
  "Spawn fn w =
     (case sync_Lock (smu (sched w)) of
        Blocks m \<Rightarrow> Blocks w
      | Panics e \<Rightarrow> Panics e
      | Fatal e \<Rightarrow> Fatal e
      | Returns u m \<Rightarrow>
          (case WaitGroup_Add 1 (waitGroup (sched w)) of
             Blocks n \<Rightarrow> Blocks w
           | Panics e \<Rightarrow> Panics e
           | Fatal e \<Rightarrow> Fatal e
           | Returns u n \<Rightarrow>
               map_state
                 (\<lambda>m'. w\<lparr>sched := (sched w)\<lparr>smu := m', waitGroup := n\<rparr>,
                          goroutines := goroutines w @ [Live fn]\<rparr>)
                 (sync_Unlock m)))"

fun spawn_all :: "call list list \<Rightarrow> world \<Rightarrow> (unit, world) outcome" where
  "spawn_all [] w = Returns () w"
| "spawn_all (fn # fns) w =
     (case Spawn fn w of
        Returns u w' \<Rightarrow> spawn_all fns w'
      | Blocks w' \<Rightarrow> Blocks w'
      | Panics e \<Rightarrow> Panics e
      | Fatal e \<Rightarrow> Fatal e)"

text \<open>One call of a function, on the mutex it names.\<close>

fun do_call :: "call \<Rightarrow> Mutex list \<Rightarrow> (unit, Mutex list) outcome" where
  "do_call (Lock k) ms =
     (if k < length ms then map_state (\<lambda>m. ms[k := m]) (Mutex_Lock (ms ! k))
      else Panics ''no such mutex'')"
| "do_call (Unlock k) ms =
     (if k < length ms then map_state (\<lambda>m. ms[k := m]) (Mutex_Unlock (ms ! k))
      else Panics ''no such mutex'')"
| "do_call (TryLock k) ms =
     (if k < length ms
      then map_result (\<lambda>ok. ()) (map_state (\<lambda>m. ms[k := m]) (Mutex_TryLock (ms ! k)))
      else Panics ''no such mutex'')"

text \<open>
  The Go runtime lets goroutine \<open>i\<close> run up to the end of its next call. A call that
  blocks leaves the goroutine where it is, parked, to try again when it is next run; a
  function that has returned runs its deferred \<^verbatim>\<open>s.waitGroup.Done()\<close> and the goroutine
  is gone; a panic or fatal error kills the process.
\<close>

definition go_step :: "nat \<Rightarrow> world \<Rightarrow> world" where
  "go_step i w =
     (if crashed w \<noteq> None \<or> length (goroutines w) \<le> i then w
      else case goroutines w ! i of
        Exited \<Rightarrow> w
      | Live [] \<Rightarrow>
          (case WaitGroup_Add (- 1) (waitGroup (sched w)) of
             Returns u n \<Rightarrow>
               w\<lparr>sched := (sched w)\<lparr>waitGroup := n\<rparr>,
                 goroutines := (goroutines w)[i := Exited]\<rparr>
           | Blocks n \<Rightarrow> w
           | Panics e \<Rightarrow> w\<lparr>crashed := Some e\<rparr>
           | Fatal e \<Rightarrow> w\<lparr>crashed := Some e\<rparr>)
      | Live (c # cs) \<Rightarrow>
          (case do_call c (mutexes w) of
             Returns u ms \<Rightarrow>
               w\<lparr>mutexes := ms, goroutines := (goroutines w)[i := Live cs],
                 log := log w @ [(i, c)]\<rparr>
           | Blocks ms \<Rightarrow> w
           | Panics e \<Rightarrow> w\<lparr>crashed := Some e\<rparr>
           | Fatal e \<Rightarrow> w\<lparr>crashed := Some e\<rparr>))"

text \<open>
  \<^verbatim>\<open>Wait\<close> has no result; it returns when the counter of the wait group is zero.
  Until then the goroutines run in the order the Go runtime chooses: \<open>pick n\<close> is the
  goroutine it runs at step \<open>n\<close>. \<open>None\<close> means that \<^verbatim>\<open>Wait\<close> never returns.
\<close>

datatype ending = Wait_returned | Process_died string

partial_function (option) Wait :: "(nat \<Rightarrow> nat) \<Rightarrow> nat \<Rightarrow> world \<Rightarrow> (ending \<times> world) option" where
  "Wait pick n w =
     (case crashed w of
        Some e \<Rightarrow> Some (Process_died e, w)
      | None \<Rightarrow>
          if waitGroup (sched w) = 0 then Some (Wait_returned, w)
          else Wait pick (Suc n) (go_step (pick n) w))"

text \<open>
  A run: \<^verbatim>\<open>New(seed)\<close>, a \<^verbatim>\<open>Spawn\<close> for each function, then \<^verbatim>\<open>Wait\<close>. What can be
  observed of it is how it ends and the records of the calls made.
\<close>

definition run ::
    "64 word \<Rightarrow> nat \<Rightarrow> call list list \<Rightarrow> (nat \<Rightarrow> nat) \<Rightarrow> (ending \<times> (nat \<times> call) list) option" where
  "run seed k fns pick =
     (case spawn_all fns (boot seed k) of
        Returns u w \<Rightarrow> map_option (\<lambda>r. (fst r, log (snd r))) (Wait pick 0 w)
      | Blocks w \<Rightarrow> None
      | Panics e \<Rightarrow> None
      | Fatal e \<Rightarrow> None)"

text \<open>The state in which the \<^verbatim>\<open>Spawn\<close> calls leave a fresh scheduler.\<close>

definition spawned :: "64 word \<Rightarrow> nat \<Rightarrow> call list list \<Rightarrow> world" where
  "spawned seed k fns =
     \<lparr>sched = (New seed)\<lparr>waitGroup := int (length fns)\<rparr>, goroutines = map Live fns,
      mutexes = replicate k zero_Mutex, log = [], crashed = None\<rparr>"

text \<open>
  A goroutine is parked when its next call blocks. The goroutines that are neither
  gone nor parked are the ones the runtime may be executing, all at the same time:
  nothing in the code holds a started goroutine back. The run is deadlocked when the
  process is alive, every goroutine is gone or parked, and at least one is parked.
\<close>

fun parked :: "Mutex list \<Rightarrow> goroutine \<Rightarrow> bool" where
  "parked ms (Live (c # cs)) =
     (case do_call c ms of Blocks ms' \<Rightarrow> True | Returns u ms' \<Rightarrow> False
      | Panics e \<Rightarrow> False | Fatal e \<Rightarrow> False)"
| "parked ms (Live []) = False"
| "parked ms Exited = False"

definition executing :: "world \<Rightarrow> nat" where
  "executing w =
     length (filter (\<lambda>g. g \<noteq> Exited \<and> \<not> parked (mutexes w) g) (goroutines w))"

definition deadlocked :: "world \<Rightarrow> bool" where
  "deadlocked w =
     (crashed w = None
      \<and> list_all (\<lambda>g. g = Exited \<or> parked (mutexes w) g) (goroutines w)
      \<and> list_ex (parked (mutexes w)) (goroutines w))"

text \<open>
  The program of \<^verbatim>\<open>TestDeadlock\<close> in \<^verbatim>\<open>examples/basic_test.go\<close>: two tasks take two
  mutexes in opposite orders. Three orders in which the runtime may run them: the
  first task to its end and then the second, the reverse, and both in turns.
\<close>

definition lock_order :: "call list list" where
  "lock_order =
     [[Lock 0, Lock 1, Unlock 1, Unlock 0], [Lock 1, Lock 0, Unlock 0, Unlock 1]]"

definition first_then_second :: "nat \<Rightarrow> nat" where
  "first_then_second n = (if n < 5 then 0 else 1)"

definition second_then_first :: "nat \<Rightarrow> nat" where
  "second_then_first n = (if n < 5 then 1 else 0)"

definition in_turns :: "nat \<Rightarrow> nat" where
  "in_turns n = n mod 2"

text \<open>The state after each task of \<open>lock_order\<close> has taken its first mutex.\<close>

definition embrace :: world where
  "embrace =
     \<lparr>sched = (New 0)\<lparr>waitGroup := 2\<rparr>,
      goroutines = [Live [Lock 1, Unlock 1, Unlock 0], Live [Lock 0, Unlock 0, Unlock 1]],
      mutexes = [locked_Mutex, locked_Mutex], log = [(0, Lock 0), (1, Lock 1)],
      crashed = None\<rparr>"

section \<open>Properties of the mutex\<close>

lemma Mutex_Unlock_cases:
  "Mutex_Unlock m =
     (case mu_ptr m of
        None \<Rightarrow> Panics ''unlock of unlocked mutex''
      | Some sm \<Rightarrow>
          if locked (mu sm) then Returns () unlocked_Mutex
          else Fatal ''sync: unlock of unlocked mutex'')"
  by (cases m)
    (simp add: Mutex_Unlock_def sched_Unlock_def sync_Unlock_def unlocked_Mutex_def
      split: option.splits)

lemma Mutex_Lock_cases:
  "Mutex_Lock m = (if Mutex_locked m then Blocks m else Returns () locked_Mutex)"
  by (cases m)
    (auto simp: Mutex_Lock_def Mutex_locked_def sched_Lock_def sync_Lock_def NewMutex_def
      locked_Mutex_def split: option.splits)

lemma Mutex_TryLock_cases:
  "Mutex_TryLock m =
     (if Mutex_locked m then Returns False m
      else Returns True locked_Mutex)"
  by (cases m)
    (auto simp: Mutex_TryLock_def Mutex_locked_def sched_TryLock_def sync_TryLock_def
      NewMutex_def locked_Mutex_def split: option.splits)

lemma Mutex_locked_simps [simp]:
  "\<not> Mutex_locked zero_Mutex" "Mutex_locked locked_Mutex" "\<not> Mutex_locked unlocked_Mutex"
  by (simp_all add: Mutex_locked_def zero_Mutex_def locked_Mutex_def unlocked_Mutex_def)

lemma Lock_by_fresh: "Lock_by t fresh_held = Returns () (locked_by t)"
  by (simp add: Lock_by_def fresh_held_def locked_by_def Mutex_Lock_cases)

text \<open>
  C10. In deterministic mode the zero value of \<^verbatim>\<open>weft.Mutex\<close> is usable without
  construction: the first \<^verbatim>\<open>Lock\<close> or \<^verbatim>\<open>TryLock\<close> on a never-used mutex allocates
  the scheduler mutex and behaves as on a fresh unlocked mutex (it returns what the
  same call returns on a mutex holding \<open>NewMutex\<close>: \<^verbatim>\<open>Lock\<close> returns with the mutex
  locked, \<^verbatim>\<open>TryLock\<close> returns true with the mutex locked), while \<^verbatim>\<open>Unlock\<close> on a
  mutex that was never locked panics with the message "unlock of unlocked mutex".
\<close>

theorem zero_Mutex_usable:
  "Mutex_Lock zero_Mutex = Mutex_Lock \<lparr>mu_ptr = Some NewMutex\<rparr>
   \<and> Mutex_Lock zero_Mutex = Returns () \<lparr>mu_ptr = Some \<lparr>mu = \<lparr>locked = True\<rparr>\<rparr>\<rparr>
   \<and> Mutex_TryLock zero_Mutex = Mutex_TryLock \<lparr>mu_ptr = Some NewMutex\<rparr>
   \<and> Mutex_TryLock zero_Mutex = Returns True \<lparr>mu_ptr = Some \<lparr>mu = \<lparr>locked = True\<rparr>\<rparr>\<rparr>
   \<and> Mutex_Unlock zero_Mutex = Panics ''unlock of unlocked mutex''"
  by (simp add: Mutex_Lock_def Mutex_TryLock_def Mutex_Unlock_def zero_Mutex_def
      NewMutex_def sched_Lock_def sched_TryLock_def sync_Lock_def sync_TryLock_def)

text \<open>
  C6 (as stated): \<^verbatim>\<open>Unlock\<close> fails with a misuse panic whenever the mutex is unlocked
  or is owned by a task other than the caller. This fails on the code: task 1 locks a
  never-used mutex, task 2 unlocks it, and the call returns with the mutex unlocked.
\<close>

theorem Unlock_by_other_task_returns:
  "Lock_by 1 fresh_held = Returns () (locked_by 1)
   \<and> holder (locked_by 1) = Some 1
   \<and> Unlock_by 2 (locked_by 1) = Returns () \<lparr>the_mutex = unlocked_Mutex, holder = None\<rparr>
   \<and> \<not> is_Panics (Unlock_by 2 (locked_by 1))"
  by (simp add: Lock_by_fresh)
    (simp add: Unlock_by_def locked_by_def Mutex_Unlock_cases locked_Mutex_def)

text \<open>
  C6 (amended): \<^verbatim>\<open>Unlock\<close> fails whenever the mutex is currently unlocked: with the
  panic "unlock of unlocked mutex" when the scheduler mutex was never allocated, and
  with the runtime's fatal error "sync: unlock of unlocked mutex" when it was allocated
  and is unlocked. On a locked mutex \<^verbatim>\<open>Unlock\<close> returns for every calling task, the
  holder or not, and leaves the mutex unlocked with no holder.
\<close>

theorem Unlock_fails_iff_unlocked:
  "(\<not> Mutex_locked (the_mutex h) \<longrightarrow>
      Unlock_by t h =
        (if mu_ptr (the_mutex h) = None then Panics ''unlock of unlocked mutex''
         else Fatal ''sync: unlock of unlocked mutex''))
   \<and> (Mutex_locked (the_mutex h) \<longrightarrow>
      Unlock_by t h = Returns () \<lparr>the_mutex = unlocked_Mutex, holder = None\<rparr>)"
  by (auto simp: Unlock_by_def Mutex_Unlock_cases Mutex_locked_def split: option.splits)

theorem Unlock_fails_iff_unlocked_witness:
  "\<not> Mutex_locked (the_mutex fresh_held)
   \<and> Unlock_by 1 fresh_held = Panics ''unlock of unlocked mutex''
   \<and> Mutex_locked (the_mutex (locked_by 1))
   \<and> Unlock_by 1 (locked_by 1) = Returns () \<lparr>the_mutex = unlocked_Mutex, holder = None\<rparr>
   \<and> Unlock_by 2 (locked_by 1) = Returns () \<lparr>the_mutex = unlocked_Mutex, holder = None\<rparr>"
proof -
  have u: "\<not> Mutex_locked (the_mutex fresh_held)"
    and n: "mu_ptr (the_mutex fresh_held) = None"
    by (simp_all add: fresh_held_def) (simp add: zero_Mutex_def)
  have l: "Mutex_locked (the_mutex (locked_by 1))"
    by (simp add: locked_by_def)
  show ?thesis
    using u n l Unlock_fails_iff_unlocked [of fresh_held 1]
      Unlock_fails_iff_unlocked [of "locked_by 1" 1]
      Unlock_fails_iff_unlocked [of "locked_by 1" 2]
    by simp
qed

text \<open>
  C7 (as stated): \<^verbatim>\<open>Lock\<close> by the task that already holds the mutex is reported as
  an error or panic rather than blocking the holder. This fails on the code: task 1
  locks a never-used mutex and calls \<^verbatim>\<open>Lock\<close> again; the second call neither panics
  nor aborts, it parks task 1.
\<close>

theorem reentrant_Lock_blocks:
  "Lock_by 1 fresh_held = Returns () (locked_by 1)
   \<and> holder (locked_by 1) = Some 1
   \<and> Lock_by 1 (locked_by 1) = Blocks (locked_by 1)
   \<and> \<not> is_Panics (Lock_by 1 (locked_by 1))"
  by (simp add: Lock_by_fresh)
    (simp add: Lock_by_def locked_by_def Mutex_Lock_cases)

text \<open>
  C7 (amended): \<^verbatim>\<open>Lock\<close> on a locked mutex, by its holder or by any other task,
  reports no error: it parks the caller and leaves the mutex and its holder as they
  were, so the lock is not granted a second time.
\<close>

theorem Lock_on_locked_blocks:
  "Mutex_locked (the_mutex h) \<Longrightarrow> Lock_by t h = Blocks h"
  by (simp add: Lock_by_def Mutex_Lock_cases)

theorem Lock_on_locked_blocks_witness:
  "Mutex_locked (the_mutex (locked_by 1))
   \<and> Lock_by 1 (locked_by 1) = Blocks (locked_by 1)
   \<and> Lock_by 2 (locked_by 1) = Blocks (locked_by 1)"
proof -
  have l: "Mutex_locked (the_mutex (locked_by 1))"
    by (simp add: locked_by_def)
  show ?thesis
    using l Lock_on_locked_blocks [OF l, of 1] Lock_on_locked_blocks [OF l, of 2] by simp
qed

section \<open>Properties of the channel\<close>

lemma native_chan_of [simp]: "native (chan_of h) = Some h"
  by (simp add: native_def chan_of_def)

lemma native_Some: "native c = Some h \<Longrightarrow> c = chan_of h"
  by (cases c) (auto simp: native_def chan_of_def)

lemma MakeChan_eq:
  "MakeChan cap =
     (if cap < 0 then Panics ''makechan: size out of range''
      else Returns () (chan_of \<lparr>dataqsiz = nat cap, buf = [], closed = False, recvq = [], sendq = []\<rparr>))"
  by (simp add: MakeChan_def sched_MakeChan_def makechan_def chan_of_def)

lemma Chan_Recv_chan_of:
  "Chan_Recv g z (chan_of h) = map_state chan_of (chanrecv True g z h)"
  by (cases "chanrecv True g z h")
    (simp_all add: Chan_Recv_def through_ptr_def sched_Recv_def chan_of_def)

text \<open>
  C8. \<^verbatim>\<open>Recv\<close> on a channel that is closed, whose buffer is empty and that has no
  parked sender returns at once, without parking the caller: the result is the zero
  value of the element type with \<open>open = False\<close>, the channel is left as it was and
  nobody is woken.
\<close>

theorem Recv_closed_empty:
  assumes "native c = Some h" and "closed h" and "buf h = []" and "sendq h = []"
  shows "Chan_Recv g z c = Returns ((z, False), []) c"
proof -
  have c: "c = chan_of h"
    using assms(1) by (rule native_Some)
  show ?thesis
    using assms(2-4) by (simp add: c Chan_Recv_chan_of chanrecv_def)
qed

theorem Recv_closed_empty_witness:
  "MakeChan 0 = Returns () (chan_of \<lparr>dataqsiz = 0, buf = [], closed = False, recvq = [], sendq = []\<rparr>)
   \<and> Chan_Close (0::int) (chan_of \<lparr>dataqsiz = 0, buf = [], closed = False, recvq = [], sendq = []\<rparr>)
       = Returns [] closed_empty
   \<and> Chan_Recv 3 (0::int) closed_empty = Returns ((0, False), []) closed_empty"
proof -
  have "native (closed_empty :: int Chan)
          = Some \<lparr>dataqsiz = 0, buf = [], closed = True, recvq = [], sendq = []\<rparr>"
    by (simp add: closed_empty_def)
  from Recv_closed_empty [OF this, of 3 0] show ?thesis
    by (simp add: MakeChan_eq Chan_Close_def through_ptr_def sched_Close_def closechan_def
        chan_of_def closed_empty_def)
qed

subsection \<open>Conservation of values\<close>

lemma note_wakes_simps [simp]:
  "note_wakes [] l = l" "note_wakes (w # ws) l = note_wakes ws (note_wake w l)"
  "note_wakes (ws @ ws') l = note_wakes ws' (note_wakes ws l)"
  by (simp_all add: note_wakes_def)

lemma note_wakes_closed_receivers [simp]:
  "note_wakes (map (\<lambda>r. Recv_returns r z False) rs) l = l"
  by (induction rs) (simp_all add: note_received_def)

lemma note_wakes_closed_senders:
  "sent (note_wakes (map (\<lambda>(s, v). Send_panics s v) sq) l) = sent l"
  "received (note_wakes (map (\<lambda>(s, v). Send_panics s v) sq) l) = received l"
  "refused (note_wakes (map (\<lambda>(s, v). Send_panics s v) sq) l) = refused l @ map snd sq"
  by (induction sq arbitrary: l) (auto simp: note_refused_def)

lemma buffered_chan_of [simp]: "buffered (chan_of h) = buf h"
  and parked_sends_chan_of [simp]: "parked_sends (chan_of h) = map snd (sendq h)"
  by (simp_all add: buffered_def parked_sends_def)

lemma through_ptr_chan_of:
  "through_ptr f (chan_of h) = map_state (\<lambda>sc. chan_of (ch sc)) (f \<lparr>ch = h\<rparr>)"
  by (cases "f \<lparr>ch = h\<rparr>") (simp_all add: through_ptr_def chan_of_def)

lemma Chan_Send_chan_of:
  "Chan_Send g v (chan_of h) = map_result snd (map_state chan_of (chansend True g v h))"
  by (cases "chansend True g v h")
    (simp_all add: Chan_Send_def through_ptr_chan_of sched_Send_def)

lemma Chan_TrySend_chan_of:
  "Chan_TrySend g v (chan_of h) = map_state chan_of (chansend False g v h)"
  by (cases "chansend False g v h")
    (simp_all add: Chan_TrySend_def through_ptr_chan_of sched_TrySend_def)

lemma Chan_TryRecv_chan_of:
  "Chan_TryRecv g z (chan_of h) = map_state chan_of (chanrecv False g z h)"
  by (cases "chanrecv False g z h")
    (simp_all add: Chan_TryRecv_def through_ptr_chan_of sched_TryRecv_def)

lemma Chan_Close_chan_of:
  "Chan_Close z (chan_of h) = map_state chan_of (closechan z h)"
  by (cases "closechan z h")
    (simp_all add: Chan_Close_def through_ptr_chan_of sched_Close_def)

lemmas Chan_ops_chan_of =
  Chan_Send_chan_of Chan_Recv_chan_of Chan_TrySend_chan_of Chan_TryRecv_chan_of
  Chan_Close_chan_of

lemma step_accounted_native:
  "accounted (chan_of h, l) \<Longrightarrow> accounted (chan_step z (g, call) (chan_of h, l))"
  by (cases call)
    (auto simp: accounted_def Chan_ops_chan_of chansend_def chanrecv_def closechan_def
      note_sent_def note_received_def note_refused_def note_wakes_closed_senders
      split: list.splits if_splits)

lemma nil_or_native: "ch_ptr c = None \<or> (\<exists>h. c = chan_of h)"
proof (cases "ch_ptr c")
  case None
  then show ?thesis by simp
next
  case (Some sc)
  then have "c = chan_of (ch sc)"
    by (cases c; cases sc) (simp add: chan_of_def)
  then show ?thesis by blast
qed

lemma step_accounted_nil:
  assumes "ch_ptr c = None" and "accounted (c, l)"
  shows "accounted (chan_step z (g, call) (c, l))"
  using assms
  by (cases call)
    (auto simp: accounted_def Chan_Send_def Chan_Recv_def Chan_TrySend_def Chan_TryRecv_def
      Chan_Close_def through_ptr_def note_sent_def note_refused_def buffered_def
      parked_sends_def native_def)

lemma step_accounted: "accounted st \<Longrightarrow> accounted (chan_step z e st)"
  using nil_or_native [of "fst st"] step_accounted_nil step_accounted_native
  by (cases st; cases e) auto

lemma run_accounted: "accounted st \<Longrightarrow> accounted (chan_run z es st)"
  by (induction es arbitrary: st) (simp_all add: step_accounted)

lemma note_wake_unharmed: "unharmed l \<Longrightarrow> unharmed (note_wake w l)"
  by (cases w) (auto simp: unharmed_def note_received_def note_refused_def)

lemma note_wakes_unharmed: "unharmed l \<Longrightarrow> unharmed (note_wakes ws l)"
  by (induction ws arbitrary: l) (simp_all add: note_wake_unharmed)

lemma step_unharmed: "unharmed (snd st) \<Longrightarrow> unharmed (snd (chan_step z e st))"
proof (cases st; cases e)
  fix c l g call
  assume u: "unharmed (snd st)" and st: "st = (c, l)" and e: "e = (g, call)"
  have l: "unharmed l" using u st by simp
  have n: "unharmed (note_sent v l)" "unharmed (note_received r l)"
    "unharmed (note_refused v l')" "unharmed (l'\<lparr>died := True\<rparr>)" for v r l'
    using l by (simp_all add: unharmed_def note_sent_def note_received_def note_refused_def)
  show ?thesis
    unfolding st e using l n
    by (cases call) (auto split: outcome.splits intro!: note_wakes_unharmed)
qed

lemma run_unharmed: "unharmed (snd st) \<Longrightarrow> unharmed (snd (chan_run z es st))"
  by (induction es arbitrary: st) (simp_all add: step_unharmed)

text \<open>
  At every point of every run on a channel made by \<^verbatim>\<open>MakeChan\<close>, each value passed
  to \<^verbatim>\<open>Send\<close> has been received, or is in the buffer, or is with its parked sender,
  or was refused by a panic; none is lost and none is duplicated.
\<close>

lemma every_value_accounted:
  assumes "MakeChan cap = Returns () c0"
  shows "accounted (chan_run z calls (c0, empty_ledger))"
proof -
  have "accounted (c0, empty_ledger)"
    using assms by (auto simp: MakeChan_eq accounted_def empty_ledger_def split: if_splits)
  then show ?thesis by (rule run_accounted)
qed

text \<open>
  C9. For every run using a channel, value conservation holds at termination: the
  multiset of the values returned by \<^verbatim>\<open>Recv\<close> across all receivers equals the multiset
  of the values passed to \<^verbatim>\<open>Send\<close>, minus the values still in the channel's buffer
  when the run ends. A run has terminated when no call has panicked and no sender is
  left parked in its \<^verbatim>\<open>Send\<close>; the values returned by \<^verbatim>\<open>Recv\<close> are those returned
  with \<open>open = True\<close>.
\<close>

theorem value_conservation:
  assumes "MakeChan cap = Returns () c0"
    and "chan_run z calls (c0, empty_ledger) = (c, l)"
    and "\<not> died l" and "parked_sends c = []"
  shows "mset (received l) = mset (sent l) - mset (buffered c)"
proof -
  have "accounted (chan_run z calls (c0, empty_ledger))"
    using assms(1) by (rule every_value_accounted)
  then have a: "accounted (c, l)"
    by (simp add: assms(2))
  have "unharmed (snd (chan_run z calls (c0, empty_ledger)))"
    by (rule run_unharmed) (simp add: unharmed_def empty_ledger_def)
  then have "refused l = []"
    using assms(2,3) by (simp add: unharmed_def)
  then show ?thesis
    using a assms(4) by (simp add: accounted_def)
qed

lemma producer_consumer_run:
  "chan_run 0 producer_consumer (fresh5, empty_ledger) = producer_consumer_end"
  by (simp add: producer_consumer_def producer_consumer_end_def fresh5_def empty_ledger_def
      Chan_ops_chan_of chansend_def chanrecv_def closechan_def note_sent_def
      note_received_def)

lemma three_in_one_out_run:
  "chan_run 0 three_in_one_out (fresh5, empty_ledger) = three_in_one_out_end"
  by (simp add: three_in_one_out_def three_in_one_out_end_def fresh5_def empty_ledger_def
      Chan_ops_chan_of chansend_def chanrecv_def closechan_def note_sent_def
      note_received_def)

theorem value_conservation_witness:
  "MakeChan 5 = Returns () fresh5
   \<and> chan_run 0 producer_consumer (fresh5, empty_ledger) = producer_consumer_end
   \<and> \<not> died (snd producer_consumer_end)
   \<and> parked_sends (fst producer_consumer_end) = []
   \<and> mset (received (snd producer_consumer_end))
       = mset (sent (snd producer_consumer_end)) - mset (buffered (fst producer_consumer_end))
   \<and> chan_run 0 three_in_one_out (fresh5, empty_ledger) = three_in_one_out_end
   \<and> \<not> died (snd three_in_one_out_end)
   \<and> parked_sends (fst three_in_one_out_end) = []
   \<and> mset (received (snd three_in_one_out_end))
       = mset (sent (snd three_in_one_out_end)) - mset (buffered (fst three_in_one_out_end))"
proof -
  have m: "MakeChan 5 = Returns () fresh5"
    by (simp add: MakeChan_eq fresh5_def)
  have p: "chan_run 0 producer_consumer (fresh5, empty_ledger)
             = (fst producer_consumer_end, snd producer_consumer_end)"
    and t: "chan_run 0 three_in_one_out (fresh5, empty_ledger)
             = (fst three_in_one_out_end, snd three_in_one_out_end)"
    by (simp_all add: producer_consumer_run three_in_one_out_run)
  have dp: "\<not> died (snd producer_consumer_end)"
    and sp: "parked_sends (fst producer_consumer_end) = []"
    by (simp_all add: producer_consumer_end_def)
  have dt: "\<not> died (snd three_in_one_out_end)"
    and st: "parked_sends (fst three_in_one_out_end) = []"
    by (simp_all add: three_in_one_out_end_def)
  show ?thesis
    using m dp sp dt st producer_consumer_run three_in_one_out_run
      value_conservation [OF m p dp sp] value_conservation [OF m t dt st]
    by simp
qed

section \<open>Properties of Sleep and After\<close>

lemma sdiv_1000: "(d::int) sdiv 1000 = (if 0 \<le> d then d div 1000 else - ((- d) div 1000))"
  by (simp add: signed_divide_int_def sgn_if)

lemma sdiv_1000_mono: "(a::int) \<le> b \<Longrightarrow> a sdiv 1000 \<le> b sdiv 1000"
proof -
  assume ab: "a \<le> b"
  consider "0 \<le> a" | "a < 0" "b < 0" | "a < 0" "0 \<le> b" by linarith
  then show ?thesis
  proof cases
    case 1
    then show ?thesis using ab by (simp add: sdiv_1000 zdiv_mono1)
  next
    case 2
    have "(- b) div 1000 \<le> (- a) div 1000"
      using ab by (intro zdiv_mono1) simp_all
    then show ?thesis using 2 by (simp add: sdiv_1000)
  next
    case 3
    have "0 \<le> (- a) div 1000" "0 \<le> b div 1000"
      using 3 by (simp_all add: pos_imp_zdiv_nonneg_iff)
    then show ?thesis using 3 by (simp add: sdiv_1000)
  qed
qed

lemma sdiv_1000_nonpos: "(d::int) sdiv 1000 \<le> 0 \<longleftrightarrow> d < 1000"
  unfolding sdiv_1000
  by (auto simp: div_pos_pos_trivial pos_imp_zdiv_nonneg_iff zdiv_eq_0_iff)

text \<open>
  C4 (as stated): \<^verbatim>\<open>Sleep(d)\<close> parks the calling task with the logical deadline
  \<open>now + d\<close> on a virtual clock and consults no wall clock. This fails on the code:
  \<^verbatim>\<open>Sleep\<close> of one second (\<open>10^9\<close> ns) parks the caller on the machine's clock for one
  millisecond, so that the instant at which it resumes moves with the reading of that
  clock (0 or 5000 below), and the scheduler, which is returned unchanged, holds no
  deadline; \<^verbatim>\<open>Sleep\<close> of 500 ns does not park the caller at all.
\<close>

theorem Sleep_uses_wall_clock:
  "Sleep (New 0) 0 1000000000 = (New 0, Parked_until 1000000)
   \<and> Sleep (New 0) 5000 1000000000 = (New 0, Parked_until 1005000)
   \<and> Sleep (New 0) 0 1000000000 \<noteq> Sleep (New 0) 5000 1000000000
   \<and> Sleep (New 0) 0 500 = (New 0, Returns_at_once)"
  by (simp add: Sleep_def time_Sleep_def sdiv_1000)

text \<open>
  C4 (amended): \<^verbatim>\<open>Sleep(d)\<close> calls the wall-clock \<^verbatim>\<open>time.Sleep\<close> with \<open>d / 1000\<close>
  (integer division truncating towards zero) and changes nothing in the scheduler,
  which has no virtual clock: for \<open>d\<close> below 1000 ns it returns at once, otherwise it
  parks the calling goroutine until the wall clock has advanced by \<open>d / 1000\<close>. In
  particular \<^verbatim>\<open>Sleep(0)\<close> returns at once and changes no state.
\<close>

theorem Sleep_wall_clock:
  "fst (Sleep s wall d) = s
   \<and> snd (Sleep s wall d) =
       (if d < 1000 then Returns_at_once else Parked_until (wall + d sdiv 1000))
   \<and> Sleep s wall 0 = (s, Returns_at_once)"
  by (simp add: Sleep_def time_Sleep_def sdiv_1000_nonpos)

text \<open>
  C5 (as stated): timers never fire out of deadline order, and timers with equal
  deadlines fire in insertion order. This fails on the code. In the first scenario the
  durations are 999 and 1, so the second timer has the earlier deadline and has to
  fire first; in the second scenario they are 0 and 0, so the first timer has to fire
  first. \<^verbatim>\<open>After\<close> hands the Go runtime the same two timers in both scenarios, so
  no behaviour of the runtime (\<open>first\<close>: which of the timers it is given fires first)
  meets the claim in both.
\<close>

theorem After_forgets_deadline_order:
  "\<not> (\<exists>first :: Timer list \<Rightarrow> nat.
        first (timers_started (New 0) (10, 999) (20, 1)) = fires_first_by_deadline 999 1
        \<and> first (timers_started (New 0) (10, 0) (20, 0)) = fires_first_by_deadline 0 0)"
  by (simp add: timers_started_def After_def time_After_def sdiv_1000
      fires_first_by_deadline_def)

text \<open>
  C5 (amended): \<^verbatim>\<open>After(d)\<close> starts a wall-clock timer (\<^verbatim>\<open>time.After\<close>) that is due
  \<open>d / 1000\<close> (truncated towards zero) after the wall-clock instant of the call, and
  records nothing in the scheduler: there is no timer queue and no insertion sequence.
  For timers started at the same instant the due times follow the durations, but only
  weakly: a smaller duration never gives a later due time, and durations less than a
  microsecond apart can give the same due time. The order in which timers fire is left
  to the wall-clock timers of the Go runtime.
\<close>

theorem After_wall_clock:
  "After s wall d = (s, \<lparr>due = wall + d sdiv 1000\<rparr>)
   \<and> (d1 \<le> d2 \<longrightarrow> due (snd (After s wall d1)) \<le> due (snd (After s wall d2)))"
  by (simp add: After_def time_After_def sdiv_1000_mono)

theorem After_wall_clock_witness:
  "After (New 0) 10 5000 = (New 0, \<lparr>due = 15\<rparr>)
   \<and> (1000 :: int) \<le> 5000
   \<and> due (snd (After (New 0) 10 1000)) \<le> due (snd (After (New 0) 10 5000))
   \<and> (1 :: int) \<le> 999
   \<and> due (snd (After (New 0) 10 1)) = due (snd (After (New 0) 10 999))"
proof -
  have a: "After (New 0) 10 5000 = (New 0, \<lparr>due = 15\<rparr>)"
    using After_wall_clock [of "New 0" 10 5000] by (simp add: sdiv_1000)
  have b: "due (snd (After (New 0) 10 1000)) \<le> due (snd (After (New 0) 10 5000))"
    using After_wall_clock [of "New 0" 10 0 1000 5000] by simp
  have c: "due (snd (After (New 0) 10 1)) = due (snd (After (New 0) 10 999))"
    using After_wall_clock [of "New 0" 10 1] After_wall_clock [of "New 0" 10 999]
    by (simp add: sdiv_1000)
  show ?thesis
    using a b c by simp
qed

end
